theory Spec2Isabelle
  imports Complex_Main
begin

section \<open>Data model (src/project/src/lib/supabase.ts and the interfaces of the pages)\<close>

text \<open>
  JavaScript numbers are modelled as \<^typ>\<open>real\<close>: arithmetic is exact, and the values
  \<open>NaN\<close> and \<open>\<plusminus>Infinity\<close> do not occur. Optional properties (\<open>user_id?\<close>, \<open>feedback?\<close>) are
  \<^typ>\<open>'a option\<close>, where \<open>None\<close> stands for \<open>undefined\<close> and for an absent property alike.
  The TypeScript string-literal unions (\<open>status\<close>, \<open>user_type\<close>, \<open>AppState\<close>) are erased at run
  time, so they are plain strings here and nothing is assumed about their values.
  A property called \<open>id\<close> in the source is called \<open>T_id\<close> for its interface \<open>T\<close>.
\<close>

record File =
  File_name :: string
  File_bytes :: "nat list"

record User =
  User_id :: string

record UserProfile =
  UserProfile_id :: string
  email :: string
  user_type :: string
  UserProfile_created_at :: string

record CapturedImage =
  CapturedImage_file :: File
  dataUrl :: string


section \<open>The screen-flow controller (src/unnamed/part_000, component \<open>AppContent\<close>)\<close>

text \<open>The eight literals of the type \<open>AppState\<close>, in the order of the declaration.\<close>

definition AppState :: "string list" where
  "AppState = [''splash'', ''userSelection'', ''auth'', ''camera'', ''report'',
               ''rangerDashboard'', ''adminDashboard'', ''complete'']"

text \<open>The three \<open>useState\<close> cells of the component.\<close>

record AppContent =
  currentState :: string
  selectedUserType :: string
  capturedImage :: "CapturedImage option"

definition initialAppContent :: AppContent where
  "initialAppContent =
     \<lparr>currentState = ''splash'', selectedUserType = '''', capturedImage = None\<rparr>"

text \<open>
  The \<open>useEffect\<close> on \<open>[user, profile, loading]\<close>. The three values come from the
  authentication context and are inputs here. A profile whose \<open>user_type\<close> is none of the
  three literals leaves the state as it is.
\<close>

definition authEffect ::
  "User option \<Rightarrow> UserProfile option \<Rightarrow> bool \<Rightarrow> AppContent \<Rightarrow> AppContent" where
  "authEffect user profile loading s =
     (case (loading, user, profile) of
        (False, Some u, Some p) \<Rightarrow>
          if user_type p = ''ranger'' then s\<lparr>currentState := ''rangerDashboard''\<rparr>
          else if user_type p = ''admin'' then s\<lparr>currentState := ''adminDashboard''\<rparr>
          else if user_type p = ''community'' then s\<lparr>currentState := ''camera''\<rparr>
          else s
      | _ \<Rightarrow> s)"

definition handleSplashComplete :: "AppContent \<Rightarrow> AppContent" where
  "handleSplashComplete s = s\<lparr>currentState := ''userSelection''\<rparr>"

definition handleUserTypeSelection :: "string \<Rightarrow> AppContent \<Rightarrow> AppContent" where
  "handleUserTypeSelection userType s =
     (let s1 = s\<lparr>selectedUserType := userType\<rparr>
      in if userType = ''anonymous'' then s1\<lparr>currentState := ''camera''\<rparr>
         else s1\<lparr>currentState := ''auth''\<rparr>)"

definition handleAuthComplete :: "AppContent \<Rightarrow> AppContent" where
  "handleAuthComplete s = s"

definition handleImageCapture :: "File \<Rightarrow> string \<Rightarrow> AppContent \<Rightarrow> AppContent" where
  "handleImageCapture f d s =
     s\<lparr>capturedImage := Some \<lparr>CapturedImage_file = f, dataUrl = d\<rparr>, currentState := ''report''\<rparr>"

text \<open>
  \<open>handleReportComplete\<close> sets the state and arms a three-second timer; the timer's callback
  is the separate transition \<open>reportCompleteTimeout\<close>, which may run at any later moment.
\<close>

definition handleReportComplete :: "AppContent \<Rightarrow> AppContent" where
  "handleReportComplete s = s\<lparr>currentState := ''complete''\<rparr>"

definition reportCompleteTimeout :: "AppContent \<Rightarrow> AppContent" where
  "reportCompleteTimeout s =
     s\<lparr>currentState := ''userSelection'', capturedImage := None, selectedUserType := ''''\<rparr>"

definition handleBackToUserSelection :: "AppContent \<Rightarrow> AppContent" where
  "handleBackToUserSelection s =
     s\<lparr>currentState := ''userSelection'', selectedUserType := '''', capturedImage := None\<rparr>"

definition handleBackToCamera :: "AppContent \<Rightarrow> AppContent" where
  "handleBackToCamera s = s\<lparr>currentState := ''camera'', capturedImage := None\<rparr>"

text \<open>Everything that can change the component's state, and the state it leads to.\<close>

datatype transition =
    SplashComplete
  | UserTypeSelection string
  | AuthComplete
  | ImageCapture File string
  | ReportComplete
  | ReportCompleteTimeout
  | BackToUserSelection
  | BackToCamera
  | AuthEffect "User option" "UserProfile option" bool

fun fire :: "transition \<Rightarrow> AppContent \<Rightarrow> AppContent" where
  "fire SplashComplete s = handleSplashComplete s"
| "fire (UserTypeSelection t) s = handleUserTypeSelection t s"
| "fire AuthComplete s = handleAuthComplete s"
| "fire (ImageCapture f d) s = handleImageCapture f d s"
| "fire ReportComplete s = handleReportComplete s"
| "fire ReportCompleteTimeout s = reportCompleteTimeout s"
| "fire BackToUserSelection s = handleBackToUserSelection s"
| "fire BackToCamera s = handleBackToCamera s"
| "fire (AuthEffect u p l) s = authEffect u p l s"

text \<open>A run of the component: the transitions of the list, one after the other.\<close>

fun run :: "transition list \<Rightarrow> AppContent \<Rightarrow> AppContent" where
  "run [] s = s"
| "run (t # ts) s = run ts (fire t s)"

lemmas handler_defs =
  handleSplashComplete_def handleUserTypeSelection_def handleAuthComplete_def
  handleImageCapture_def handleReportComplete_def reportCompleteTimeout_def
  handleBackToUserSelection_def handleBackToCamera_def authEffect_def

lemma fire_closed:
  "currentState s \<in> set AppState \<Longrightarrow> currentState (fire t s) \<in> set AppState"
  by (cases t)
     (auto simp: handler_defs AppState_def Let_def split: option.splits bool.splits)

lemma run_closed:
  "currentState s \<in> set AppState \<Longrightarrow> currentState (run ts s) \<in> set AppState"
  by (induction ts arbitrary: s) (simp_all add: fire_closed)

text \<open>
  C3. The controller has eight pairwise different states, fewer than ten; the initial state
  is one of them; every transition (handler, timer callback, authentication effect) maps a
  state of the eight to a state of the eight; and so the state after any run from the
  initial state is one of the eight.
\<close>

theorem C3_screen_flow_finite:
  "length AppState = 8 \<and> distinct AppState \<and> length AppState < 10
   \<and> currentState initialAppContent \<in> set AppState
   \<and> (\<forall>t s. currentState s \<in> set AppState \<longrightarrow> currentState (fire t s) \<in> set AppState)
   \<and> (\<forall>ts. currentState (run ts initialAppContent) \<in> set AppState)"
proof -
  have "length AppState = 8" "distinct AppState"
    by (simp_all add: AppState_def)
  moreover have i: "currentState initialAppContent \<in> set AppState"
    by (simp add: initialAppContent_def AppState_def)
  ultimately show ?thesis
    using fire_closed run_closed [OF i] by simp
qed

theorem C3_screen_flow_finite_witness:
  "currentState initialAppContent = ''splash''
   \<and> ''splash'' \<in> set AppState
   \<and> currentState (fire ReportComplete initialAppContent) \<in> set AppState
   \<and> currentState (run [SplashComplete, UserTypeSelection ''ranger''] initialAppContent)
       = ''auth''
   \<and> currentState (run [SplashComplete, UserTypeSelection ''ranger''] initialAppContent)
       \<in> set AppState"
proof -
  have i: "currentState initialAppContent = ''splash''"
    by (simp add: initialAppContent_def)
  have r: "currentState (run [SplashComplete, UserTypeSelection ''ranger''] initialAppContent)
       = ''auth''"
    by (simp add: handleSplashComplete_def handleUserTypeSelection_def)
  from C3_screen_flow_finite i r show ?thesis
    by metis
qed

text \<open>
  C4. Once loading has finished with a user and a profile, a profile of type \<open>ranger\<close> leads
  to the ranger dashboard, \<open>admin\<close> to the admin dashboard and \<open>community\<close> to the camera.
  At the user-type selection, \<open>anonymous\<close> leads to the camera and records the selection,
  with no authentication step in between; every other selection leads to the
  authentication page.
\<close>

theorem C4_role_routing:
  "(user_type p = ''ranger'' \<longrightarrow>
      currentState (authEffect (Some u) (Some p) False s) = ''rangerDashboard'')
   \<and> (user_type p = ''admin'' \<longrightarrow>
      currentState (authEffect (Some u) (Some p) False s) = ''adminDashboard'')
   \<and> (user_type p = ''community'' \<longrightarrow>
      currentState (authEffect (Some u) (Some p) False s) = ''camera'')
   \<and> currentState (handleUserTypeSelection ''anonymous'' s) = ''camera''
   \<and> selectedUserType (handleUserTypeSelection ''anonymous'' s) = ''anonymous''
   \<and> (t \<noteq> ''anonymous'' \<longrightarrow> currentState (handleUserTypeSelection t s) = ''auth'')"
  by (simp add: authEffect_def handleUserTypeSelection_def)

theorem C4_role_routing_witness:
  "currentState (authEffect (Some \<lparr>User_id = ''u1''\<rparr>)
      (Some \<lparr>UserProfile_id = ''u1'', email = ''r@x.org'', user_type = ''ranger'',
             UserProfile_created_at = ''2025-08-08''\<rparr>) False initialAppContent)
     = ''rangerDashboard''
   \<and> currentState (authEffect (Some \<lparr>User_id = ''u2''\<rparr>)
      (Some \<lparr>UserProfile_id = ''u2'', email = ''a@x.org'', user_type = ''admin'',
             UserProfile_created_at = ''2025-08-08''\<rparr>) False initialAppContent)
     = ''adminDashboard''
   \<and> currentState (authEffect (Some \<lparr>User_id = ''u3''\<rparr>)
      (Some \<lparr>UserProfile_id = ''u3'', email = ''c@x.org'', user_type = ''community'',
             UserProfile_created_at = ''2025-08-08''\<rparr>) False initialAppContent)
     = ''camera''
   \<and> currentState (handleUserTypeSelection ''ranger'' initialAppContent) = ''auth''"
  using
    C4_role_routing [of "\<lparr>UserProfile_id = ''u1'', email = ''r@x.org'', user_type = ''ranger'',
             UserProfile_created_at = ''2025-08-08''\<rparr>" "\<lparr>User_id = ''u1''\<rparr>"
             initialAppContent "''ranger''"]
    C4_role_routing [of "\<lparr>UserProfile_id = ''u2'', email = ''a@x.org'', user_type = ''admin'',
             UserProfile_created_at = ''2025-08-08''\<rparr>" "\<lparr>User_id = ''u2''\<rparr>"
             initialAppContent "''ranger''"]
    C4_role_routing [of "\<lparr>UserProfile_id = ''u3'', email = ''c@x.org'', user_type = ''community'',
             UserProfile_created_at = ''2025-08-08''\<rparr>" "\<lparr>User_id = ''u3''\<rparr>"
             initialAppContent "''ranger''"]
  by simp

section \<open>The mock classifier (src/project/src/utils/aiAnalysis.ts)\<close>








function string_of_nat :: "nat \<Rightarrow> string" where
  "string_of_nat n =
     (if n < 10 then [''0123456789'' ! n]
      else string_of_nat (n div 10) @ [''0123456789'' ! (n mod 10)])"
  by pat_completeness auto
termination
  by (relation "measure id") auto

declare string_of_nat.simps [simp del]



















section \<open>Reports and the offline queue (src/project/src/utils/offlineStorage.ts)\<close>

text \<open>
  \<open>ReportFields\<close> is \<open>Omit<Report, 'id' | 'created_at' | 'updated_at'>\<close>, the part that
  \<open>Report\<close> and \<open>OfflineReport\<close> share.
\<close>

record ReportFields =
  user_id :: "string option"
  animal_type :: string
  image_url :: string
  latitude :: real
  longitude :: real
  status :: string
  feedback :: "string option"

record Report = ReportFields +
  Report_id :: string
  created_at :: string
  updated_at :: string

record OfflineReport = ReportFields +
  tempId :: string
  imageDataUrl :: string
  timestamp :: string

text \<open>
  The values \<open>JSON.parse\<close> can return. An object is represented by the offline report it
  denotes; objects of another shape are not represented.
\<close>

datatype js_value =
    JNull
  | JBool bool
  | JNum real
  | JStr string
  | JArr "js_value list"
  | JObj OfflineReport

fun is_array :: "js_value \<Rightarrow> bool" where
  "is_array (JArr xs) = True"
| "is_array v = False"

text \<open>
  A string held by \<open>localStorage\<close> is represented by what \<open>JSON.parse\<close> makes of it: the
  empty string (which is falsy and on which \<open>JSON.parse\<close> throws), a non-empty string that
  is not JSON text (on which \<open>JSON.parse\<close> throws), or the JSON text of a value, which is
  also what \<open>JSON.stringify\<close> of that value produces.
\<close>

datatype stored_text = EmptyString | NotJSON | JSONText js_value

datatype exn = SecurityError | QuotaExceededError | SyntaxError | TypeError

definition JSON_parse :: "stored_text \<Rightarrow> exn + js_value" where
  "JSON_parse t = (case t of JSONText v \<Rightarrow> Inr v | _ \<Rightarrow> Inl SyntaxError)"

definition JSON_stringify :: "js_value \<Rightarrow> stored_text" where
  "JSON_stringify v = JSONText v"

text \<open>
  The browser's storage. Its two ways of failing are inputs: \<open>access_denied\<close> (every access
  throws \<open>SecurityError\<close>, as when storage is blocked for the origin) and \<open>quota_exceeded\<close>
  (\<open>setItem\<close> throws \<open>QuotaExceededError\<close>, as when the origin's quota is used up).
\<close>

record Storage =
  items :: "string \<rightharpoonup> stored_text"
  access_denied :: bool
  quota_exceeded :: bool

definition getItem :: "Storage \<Rightarrow> string \<Rightarrow> exn + stored_text option" where
  "getItem st k = (if access_denied st then Inl SecurityError else Inr (items st k))"

definition setItem :: "Storage \<Rightarrow> string \<Rightarrow> stored_text \<Rightarrow> exn + Storage" where
  "setItem st k v =
     (if access_denied st then Inl SecurityError
      else if quota_exceeded st then Inl QuotaExceededError
      else Inr (st\<lparr>items := (items st)(k \<mapsto> v)\<rparr>))"

definition removeItem :: "Storage \<Rightarrow> string \<Rightarrow> exn + Storage" where
  "removeItem st k =
     (if access_denied st then Inl SecurityError
      else Inr (st\<lparr>items := (items st)(k := None)\<rparr>))"

definition OFFLINE_REPORTS_KEY :: string where
  "OFFLINE_REPORTS_KEY = ''sentry_jamii_offline_reports''"

text \<open>
  \<open>getOfflineReports\<close>: the \<open>Inl\<close> branches are the \<open>catch\<close> block, which logs and returns
  \<open>[]\<close>; \<open>None\<close> and the empty string are the falsy values of \<open>reports\<close>. The result of
  \<open>JSON.parse\<close> is returned as it is.
\<close>

definition getOfflineReports :: "Storage \<Rightarrow> js_value" where
  "getOfflineReports st =
     (case getItem st OFFLINE_REPORTS_KEY of
        Inl e \<Rightarrow> JArr []
      | Inr reports \<Rightarrow>
          (case reports of
             None \<Rightarrow> JArr []
           | Some EmptyString \<Rightarrow> JArr []
           | Some t \<Rightarrow> (case JSON_parse t of Inl e \<Rightarrow> JArr [] | Inr v \<Rightarrow> v)))"

text \<open>
  The spread \<open>[...x]\<close>: an array yields its elements, a string its characters, and a value
  that is not iterable throws \<open>TypeError\<close>.
\<close>

fun spread :: "js_value \<Rightarrow> exn + js_value list" where
  "spread (JArr xs) = Inr xs"
| "spread (JStr s) = Inr (map (\<lambda>c. JStr [c]) s)"
| "spread v = Inl TypeError"

text \<open>\<open>saveOfflineReport\<close>: the \<open>Inl\<close> branches are the \<open>catch\<close> block, which only logs.\<close>

definition saveOfflineReport :: "OfflineReport \<Rightarrow> Storage \<Rightarrow> Storage" where
  "saveOfflineReport report st =
     (case spread (getOfflineReports st) of
        Inl e \<Rightarrow> st
      | Inr existingReports \<Rightarrow>
          (let updatedReports = existingReports @ [JObj report]
           in case setItem st OFFLINE_REPORTS_KEY (JSON_stringify (JArr updatedReports)) of
                Inl e \<Rightarrow> st
              | Inr st' \<Rightarrow> st'))"

definition clearOfflineReports :: "Storage \<Rightarrow> Storage" where
  "clearOfflineReports st =
     (case removeItem st OFFLINE_REPORTS_KEY of Inl e \<Rightarrow> st | Inr st' \<Rightarrow> st')"

text \<open>
  What the application acts on: the browser's storage, the backend's \<open>reports\<close> table and
  \<open>wildlife-images\<close> bucket, the PDF files handed to the browser for download, and the number
  of calls of the \<open>onComplete\<close> callback. A PDF is represented by the report whose fields are
  printed in it, the image passed to \<open>addImage\<close> (none for an empty data URL) and the name it
  is saved under; the layout and the formatting of dates and numbers are not modelled.
\<close>

record pdf =
  pdf_report :: Report
  pdf_image :: "string option"
  pdf_filename :: string

record world =
  localStorage :: Storage
  reports_table :: "Report list"
  wildlife_images :: "(string \<times> File) list"
  downloads :: "pdf list"
  onComplete_calls :: nat

definition syncOfflineReports :: "world \<Rightarrow> world" where
  "syncOfflineReports w = w\<lparr>localStorage := clearOfflineReports (localStorage w)\<rparr>"

lemma getOfflineReports_denied:
  "access_denied st \<Longrightarrow> getOfflineReports st = JArr []"
  by (simp add: getOfflineReports_def getItem_def)

lemma getOfflineReports_items:
  "\<not> access_denied st \<Longrightarrow>
   getOfflineReports st =
     (case items st OFFLINE_REPORTS_KEY of Some (JSONText v) \<Rightarrow> v | _ \<Rightarrow> JArr [])"
  by (simp add: getOfflineReports_def getItem_def JSON_parse_def
      split: option.splits stored_text.splits)

lemma saveOfflineReport_blocked:
  "access_denied st \<or> quota_exceeded st \<Longrightarrow> saveOfflineReport r st = st"
  by (auto simp: saveOfflineReport_def setItem_def Let_def split: sum.splits)

lemma saveOfflineReport_array:
  assumes "getOfflineReports st = JArr queue" "\<not> access_denied st" "\<not> quota_exceeded st"
  shows "saveOfflineReport r st
           = st\<lparr>items := (items st)(OFFLINE_REPORTS_KEY \<mapsto> JSONText (JArr (queue @ [JObj r])))\<rparr>"
  using assms by (simp add: saveOfflineReport_def setItem_def JSON_stringify_def)

text \<open>
  C2. Whatever the storage and the backend hold, after \<open>syncOfflineReports\<close> the queue read by
  \<open>getOfflineReports\<close> is the empty list, the backend's table and bucket are as they were,
  and the only thing that can have changed in the storage is that the queue's key is gone.
\<close>

theorem C2_sync_only_clears:
  "getOfflineReports (localStorage (syncOfflineReports w)) = JArr []
   \<and> reports_table (syncOfflineReports w) = reports_table w
   \<and> wildlife_images (syncOfflineReports w) = wildlife_images w
   \<and> (syncOfflineReports w = w
        \<or> syncOfflineReports w
            = w\<lparr>localStorage := (localStorage w)
                  \<lparr>items := (items (localStorage w))(OFFLINE_REPORTS_KEY := None)\<rparr>\<rparr>)"
proof (cases "access_denied (localStorage w)")
  case True
  then have "syncOfflineReports w = w"
    by (simp add: syncOfflineReports_def clearOfflineReports_def removeItem_def)
  with True show ?thesis
    by (simp add: getOfflineReports_denied)
next
  case False
  then have s: "syncOfflineReports w
      = w\<lparr>localStorage := (localStorage w)
            \<lparr>items := (items (localStorage w))(OFFLINE_REPORTS_KEY := None)\<rparr>\<rparr>"
    by (simp add: syncOfflineReports_def clearOfflineReports_def removeItem_def)
  have "getOfflineReports (localStorage (syncOfflineReports w)) = JArr []"
    unfolding s using False by (simp add: getOfflineReports_items)
  then show ?thesis
    using s by simp
qed

theorem C2_sync_only_clears_witness:
  "getOfflineReports
     \<lparr>items = [OFFLINE_REPORTS_KEY \<mapsto> JSONText (JArr [JStr ''queued''])],
      access_denied = False, quota_exceeded = False\<rparr> = JArr [JStr ''queued'']
   \<and> getOfflineReports (localStorage (syncOfflineReports
        \<lparr>localStorage =
           \<lparr>items = [OFFLINE_REPORTS_KEY \<mapsto> JSONText (JArr [JStr ''queued''])],
            access_denied = False, quota_exceeded = False\<rparr>,
         reports_table = [], wildlife_images = [], downloads = [], onComplete_calls = 0\<rparr>))
     = JArr []
   \<and> reports_table (syncOfflineReports
        \<lparr>localStorage =
           \<lparr>items = [OFFLINE_REPORTS_KEY \<mapsto> JSONText (JArr [JStr ''queued''])],
            access_denied = False, quota_exceeded = False\<rparr>,
         reports_table = [], wildlife_images = [], downloads = [], onComplete_calls = 0\<rparr>)
     = []"
  using C2_sync_only_clears [of
        "\<lparr>localStorage =
           \<lparr>items = [OFFLINE_REPORTS_KEY \<mapsto> JSONText (JArr [JStr ''queued''])],
            access_denied = False, quota_exceeded = False\<rparr>,
         reports_table = [], wildlife_images = [], downloads = [], onComplete_calls = 0\<rparr>"]
  by (simp add: getOfflineReports_items)

text \<open>
  C5, as the code has it. When \<open>getOfflineReports\<close> returns a list and the storage accepts
  the write (no access error, quota not exceeded), \<open>getOfflineReports\<close> after
  \<open>saveOfflineReport r\<close> returns that list with \<open>r\<close> appended at the end, the earlier entries
  in place and unchanged. When the storage throws, the error is caught and the storage is
  left exactly as it was.
\<close>

theorem C5_save_appends_when_stored:
  "(getOfflineReports st = JArr queue \<and> \<not> access_denied st \<and> \<not> quota_exceeded st
      \<longrightarrow> getOfflineReports (saveOfflineReport r st) = JArr (queue @ [JObj r]))
   \<and> (access_denied st \<or> quota_exceeded st \<longrightarrow> saveOfflineReport r st = st)"
proof -
  have "getOfflineReports (saveOfflineReport r st) = JArr (queue @ [JObj r])"
    if "getOfflineReports st = JArr queue" "\<not> access_denied st" "\<not> quota_exceeded st"
    unfolding saveOfflineReport_array [OF that] using that(2)
    by (simp add: getOfflineReports_items)
  then show ?thesis
    using saveOfflineReport_blocked by blast
qed

theorem C5_save_appends_when_stored_witness:
  "getOfflineReports (saveOfflineReport
      \<lparr>user_id = None, animal_type = ''Zebra'', image_url = '''', latitude = - 1.2921,
       longitude = 36.8219, status = ''pending'', feedback = None,
       tempId = ''t2'', imageDataUrl = ''data:image/jpeg;base64,AA'', timestamp = ''2025-08-08''\<rparr>
      \<lparr>items = [OFFLINE_REPORTS_KEY \<mapsto> JSONText (JArr [JStr ''queued''])],
       access_denied = False, quota_exceeded = False\<rparr>)
   = JArr [JStr ''queued'', JObj
      \<lparr>user_id = None, animal_type = ''Zebra'', image_url = '''', latitude = - 1.2921,
       longitude = 36.8219, status = ''pending'', feedback = None,
       tempId = ''t2'', imageDataUrl = ''data:image/jpeg;base64,AA'', timestamp = ''2025-08-08''\<rparr>]"
  using C5_save_appends_when_stored [of
      "\<lparr>items = [OFFLINE_REPORTS_KEY \<mapsto> JSONText (JArr [JStr ''queued''])],
        access_denied = False, quota_exceeded = False\<rparr>"
      "[JStr ''queued'']"
      "\<lparr>user_id = None, animal_type = ''Zebra'', image_url = '''', latitude = - 1.2921,
       longitude = 36.8219, status = ''pending'', feedback = None,
       tempId = ''t2'', imageDataUrl = ''data:image/jpeg;base64,AA'', timestamp = ''2025-08-08''\<rparr>"]
  by (simp add: getOfflineReports_items)

text \<open>
  C5, as the claim states it, fails: with an empty queue and a storage whose quota is used
  up, \<open>setItem\<close> throws, \<open>saveOfflineReport\<close> catches the error, and the queue read afterwards
  is still empty rather than the one-element list holding the report.
\<close>

theorem C5_full_storage_drops_report:
  "getOfflineReports \<lparr>items = Map.empty, access_denied = False, quota_exceeded = True\<rparr>
     = JArr []
   \<and> getOfflineReports (saveOfflineReport
        \<lparr>user_id = None, animal_type = ''Zebra'', image_url = '''', latitude = - 1.2921,
         longitude = 36.8219, status = ''pending'', feedback = None,
         tempId = ''t1'', imageDataUrl = ''data:image/jpeg;base64,AA'', timestamp = ''2025-08-08''\<rparr>
        \<lparr>items = Map.empty, access_denied = False, quota_exceeded = True\<rparr>)
     = JArr []
   \<and> getOfflineReports (saveOfflineReport
        \<lparr>user_id = None, animal_type = ''Zebra'', image_url = '''', latitude = - 1.2921,
         longitude = 36.8219, status = ''pending'', feedback = None,
         tempId = ''t1'', imageDataUrl = ''data:image/jpeg;base64,AA'', timestamp = ''2025-08-08''\<rparr>
        \<lparr>items = Map.empty, access_denied = False, quota_exceeded = True\<rparr>)
     \<noteq> JArr ([] @ [JObj
        \<lparr>user_id = None, animal_type = ''Zebra'', image_url = '''', latitude = - 1.2921,
         longitude = 36.8219, status = ''pending'', feedback = None,
         tempId = ''t1'', imageDataUrl = ''data:image/jpeg;base64,AA'',
         timestamp = ''2025-08-08''\<rparr>])"
  by (simp add: saveOfflineReport_blocked getOfflineReports_items)

text \<open>
  C8, as the code has it. \<open>getOfflineReports\<close> returns a value for every state of the storage
  and lets no exception escape. It returns the empty list when the access throws, when the
  key is missing, and when the stored string is empty or is not JSON text. Otherwise it
  returns the value the stored text denotes, whatever it is: the result is a list exactly in
  the cases above and when the stored text is that of a JSON array. A list stays a list
  under \<open>saveOfflineReport\<close>.
\<close>

theorem C8_getOfflineReports_result:
  "(access_denied st \<or> items st OFFLINE_REPORTS_KEY = None
      \<or> items st OFFLINE_REPORTS_KEY = Some EmptyString
      \<or> items st OFFLINE_REPORTS_KEY = Some NotJSON
      \<longrightarrow> getOfflineReports st = JArr [])
   \<and> (\<not> access_denied st \<and> items st OFFLINE_REPORTS_KEY = Some (JSONText v)
      \<longrightarrow> getOfflineReports st = v)
   \<and> (is_array (getOfflineReports st)
      \<longleftrightarrow> access_denied st \<or> items st OFFLINE_REPORTS_KEY = None
          \<or> items st OFFLINE_REPORTS_KEY = Some EmptyString
          \<or> items st OFFLINE_REPORTS_KEY = Some NotJSON
          \<or> (\<exists>xs. items st OFFLINE_REPORTS_KEY = Some (JSONText (JArr xs))))
   \<and> (is_array (getOfflineReports st)
      \<longrightarrow> is_array (getOfflineReports (saveOfflineReport r st)))"
proof (cases "access_denied st")
  case True
  then show ?thesis
    by (simp add: getOfflineReports_denied saveOfflineReport_blocked)
next
  case False
  have kept: "is_array (getOfflineReports (saveOfflineReport r st))"
    if "is_array (getOfflineReports st)"
  proof -
    from that obtain queue where q: "getOfflineReports st = JArr queue"
      by (cases "getOfflineReports st") simp_all
    show ?thesis
    proof (cases "quota_exceeded st")
      case True
      then show ?thesis
        using that by (simp add: saveOfflineReport_blocked)
    next
      case False
      show ?thesis
        unfolding saveOfflineReport_array [OF q \<open>\<not> access_denied st\<close> False]
        using \<open>\<not> access_denied st\<close> by (simp add: getOfflineReports_items)
    qed
  qed
  have "is_array (getOfflineReports st)
      \<longleftrightarrow> items st OFFLINE_REPORTS_KEY = None
          \<or> items st OFFLINE_REPORTS_KEY = Some EmptyString
          \<or> items st OFFLINE_REPORTS_KEY = Some NotJSON
          \<or> (\<exists>xs. items st OFFLINE_REPORTS_KEY = Some (JSONText (JArr xs)))"
  proof (cases "items st OFFLINE_REPORTS_KEY")
    case None
    with False show ?thesis by (simp add: getOfflineReports_items)
  next
    case (Some t)
    show ?thesis
    proof (cases t)
      case (JSONText u)
      with Some False show ?thesis
        by (cases u) (simp_all add: getOfflineReports_items)
    qed (use Some False in \<open>simp_all add: getOfflineReports_items\<close>)
  qed
  with False kept show ?thesis
    by (auto simp: getOfflineReports_items)
qed

theorem C8_getOfflineReports_result_witness:
  "getOfflineReports \<lparr>items = Map.empty, access_denied = False, quota_exceeded = False\<rparr>
     = JArr []
   \<and> getOfflineReports \<lparr>items = [OFFLINE_REPORTS_KEY \<mapsto> NotJSON], access_denied = False,
        quota_exceeded = False\<rparr> = JArr []
   \<and> getOfflineReports \<lparr>items = [OFFLINE_REPORTS_KEY \<mapsto> JSONText (JArr [JStr ''queued''])],
        access_denied = False, quota_exceeded = False\<rparr> = JArr [JStr ''queued'']
   \<and> getOfflineReports \<lparr>items = [OFFLINE_REPORTS_KEY \<mapsto> JSONText (JArr [JStr ''queued''])],
        access_denied = True, quota_exceeded = False\<rparr> = JArr []"
  using
    C8_getOfflineReports_result [of
      "\<lparr>items = Map.empty, access_denied = False, quota_exceeded = False\<rparr>"]
    C8_getOfflineReports_result [of
      "\<lparr>items = [OFFLINE_REPORTS_KEY \<mapsto> NotJSON], access_denied = False,
        quota_exceeded = False\<rparr>"]
    C8_getOfflineReports_result [of
      "\<lparr>items = [OFFLINE_REPORTS_KEY \<mapsto> JSONText (JArr [JStr ''queued''])],
        access_denied = False, quota_exceeded = False\<rparr>" "JArr [JStr ''queued'']"]
    C8_getOfflineReports_result [of
      "\<lparr>items = [OFFLINE_REPORTS_KEY \<mapsto> JSONText (JArr [JStr ''queued''])],
        access_denied = True, quota_exceeded = False\<rparr>"]
  by simp

text \<open>
  C8, as the claim states it, fails: when the stored string is the JSON text \<open>5\<close>, which is
  truthy and parses, \<open>getOfflineReports\<close> returns the number 5, which is not a list.
\<close>

theorem C8_stored_number_is_returned:
  "getOfflineReports \<lparr>items = [OFFLINE_REPORTS_KEY \<mapsto> JSONText (JNum 5)],
      access_denied = False, quota_exceeded = False\<rparr> = JNum 5
   \<and> \<not> is_array (getOfflineReports \<lparr>items = [OFFLINE_REPORTS_KEY \<mapsto> JSONText (JNum 5)],
      access_denied = False, quota_exceeded = False\<rparr>)"
  by (simp add: getOfflineReports_items)

section \<open>The ranger dashboard (src/unnamed/part_002, component \<open>RangerDashboard\<close>)\<close>

text \<open>
  The \<open>useState\<close> cells of the component. The cells \<open>filter\<close> and \<open>feedback\<close> of the source
  are \<open>filter_value\<close> and \<open>feedback_text\<close> here.
\<close>

record RangerDashboard =
  reports :: "Report list"
  selectedReport :: "Report option"
  loading :: bool
  updating :: bool
  filter_value :: string
  feedback_text :: string
  showFeedbackModal :: bool

text \<open>
  An optional string is truthy when it is present and not empty; \<open>a || b\<close> is \<open>a\<close> when \<open>a\<close>
  is truthy and \<open>b\<close> otherwise.
\<close>

definition truthy :: "string option \<Rightarrow> bool" where
  "truthy a = (case a of None \<Rightarrow> False | Some s \<Rightarrow> s \<noteq> '''')"

definition js_or :: "string option \<Rightarrow> string option \<Rightarrow> string option" where
  "js_or a b = (if truthy a then a else b)"

text \<open>
  \<open>updateData\<close>, the object sent to the backend: the status, and the feedback only when the
  text is truthy.
\<close>

record updateData =
  updateData_status :: string
  updateData_feedback :: "string option"

definition apply_updateData :: "updateData \<Rightarrow> Report \<Rightarrow> Report" where
  "apply_updateData u row =
     (case updateData_feedback u of
        None \<Rightarrow> row\<lparr>status := updateData_status u\<rparr>
      | Some t \<Rightarrow> row\<lparr>status := updateData_status u, feedback := Some t\<rparr>)"

text \<open>
  \<open>updateReportStatus\<close>. The backend's answer to the update is an input: \<open>update_error\<close> is
  the \<open>error\<close> of the response, \<open>None\<close> for \<open>null\<close>. On an error the \<open>catch\<close> block logs, and
  only \<open>finally\<close> runs: nothing but \<open>updating\<close> is set.
\<close>

definition updateReportStatus ::
  "string \<Rightarrow> string \<Rightarrow> string option \<Rightarrow> string option
     \<Rightarrow> RangerDashboard \<times> world \<Rightarrow> RangerDashboard \<times> world" where
  "updateReportStatus reportId new_status feedbackText update_error dw =
     (case dw of (d, w) \<Rightarrow>
        (let d1 = d\<lparr>updating := True\<rparr>;
             data = \<lparr>updateData_status = new_status,
                     updateData_feedback = (if truthy feedbackText then feedbackText else None)\<rparr>
         in case update_error of
              Some e \<Rightarrow> (d1\<lparr>updating := False\<rparr>, w)
            | None \<Rightarrow>
                (d1\<lparr>reports :=
                      map (\<lambda>report.
                             if Report_id report = reportId
                             then report\<lparr>status := new_status,
                                         feedback := js_or feedbackText (feedback report)\<rparr>
                             else report)
                          (reports d1),
                    selectedReport := None,
                    showFeedbackModal := False,
                    feedback_text := '''',
                    updating := False\<rparr>,
                 w\<lparr>reports_table :=
                      map (\<lambda>row. if Report_id row = reportId then apply_updateData data row
                                  else row)
                          (reports_table w)\<rparr>)))"

text \<open>
  C10. Whatever the reports, the id, the status, the feedback text and the backend's answer,
  the list of reports afterwards has the same length, and at every position: a report with
  another id is the report that was there; and in every case the id, animal type, image
  URL, latitude, longitude, creation time, user id and update time are those of the report
  that was there, so that the two differ in their status and feedback at most.
\<close>

theorem C10_update_frame:
  assumes "updateReportStatus reportId new_status feedbackText update_error (d, w) = (d', w')"
  shows "length (reports d') = length (reports d)
    \<and> (\<forall>i < length (reports d).
          (Report_id (reports d ! i) \<noteq> reportId \<longrightarrow> reports d' ! i = reports d ! i)
          \<and> Report_id (reports d' ! i) = Report_id (reports d ! i)
          \<and> animal_type (reports d' ! i) = animal_type (reports d ! i)
          \<and> image_url (reports d' ! i) = image_url (reports d ! i)
          \<and> latitude (reports d' ! i) = latitude (reports d ! i)
          \<and> longitude (reports d' ! i) = longitude (reports d ! i)
          \<and> created_at (reports d' ! i) = created_at (reports d ! i)
          \<and> user_id (reports d' ! i) = user_id (reports d ! i)
          \<and> updated_at (reports d' ! i) = updated_at (reports d ! i)
          \<and> (reports d' ! i)\<lparr>status := status (reports d ! i),
                               feedback := feedback (reports d ! i)\<rparr> = reports d ! i)"
proof (cases update_error)
  case (Some e)
  with assms have "reports d' = reports d"
    by (auto simp: updateReportStatus_def)
  then show ?thesis by simp
next
  case None
  with assms have r: "reports d' =
      map (\<lambda>report. if Report_id report = reportId
                     then report\<lparr>status := new_status,
                                 feedback := js_or feedbackText (feedback report)\<rparr>
                     else report) (reports d)"
    by (auto simp: updateReportStatus_def)
  show ?thesis
    unfolding r by simp
qed

theorem C10_update_frame_witness:
  "reports (fst (updateReportStatus ''r1'' ''ranger_assigned'' (Some ''On our way'') None
     (\<lparr>reports =
         [\<lparr>user_id = Some ''u1'', animal_type = ''Lion'', image_url = ''https://img/1.jpg'',
           latitude = - 1.2921, longitude = 36.8219, status = ''pending'', feedback = None,
           Report_id = ''r1'', created_at = ''2025-08-08'', updated_at = ''2025-08-08''\<rparr>,
          \<lparr>user_id = None, animal_type = ''Zebra'', image_url = ''https://img/2.jpg'',
           latitude = 0, longitude = 1, status = ''pending'', feedback = Some ''seen'',
           Report_id = ''r2'', created_at = ''2025-08-09'', updated_at = ''2025-08-09''\<rparr>],
       selectedReport = None, loading = False, updating = False, filter_value = ''all'',
       feedback_text = ''On our way'', showFeedbackModal = True\<rparr>,
      \<lparr>localStorage = \<lparr>items = Map.empty, access_denied = False, quota_exceeded = False\<rparr>,
       reports_table = [], wildlife_images = [], downloads = [], onComplete_calls = 0\<rparr>)))
   = [\<lparr>user_id = Some ''u1'', animal_type = ''Lion'', image_url = ''https://img/1.jpg'',
       latitude = - 1.2921, longitude = 36.8219, status = ''ranger_assigned'',
       feedback = Some ''On our way'',
       Report_id = ''r1'', created_at = ''2025-08-08'', updated_at = ''2025-08-08''\<rparr>,
      \<lparr>user_id = None, animal_type = ''Zebra'', image_url = ''https://img/2.jpg'',
       latitude = 0, longitude = 1, status = ''pending'', feedback = Some ''seen'',
       Report_id = ''r2'', created_at = ''2025-08-09'', updated_at = ''2025-08-09''\<rparr>]"
proof -
  let ?d = "\<lparr>reports =
         [\<lparr>user_id = Some ''u1'', animal_type = ''Lion'', image_url = ''https://img/1.jpg'',
           latitude = - 1.2921, longitude = 36.8219, status = ''pending'', feedback = None,
           Report_id = ''r1'', created_at = ''2025-08-08'', updated_at = ''2025-08-08''\<rparr>,
          \<lparr>user_id = None, animal_type = ''Zebra'', image_url = ''https://img/2.jpg'',
           latitude = 0, longitude = 1, status = ''pending'', feedback = Some ''seen'',
           Report_id = ''r2'', created_at = ''2025-08-09'', updated_at = ''2025-08-09''\<rparr>],
       selectedReport = None, loading = False, updating = False, filter_value = ''all'',
       feedback_text = ''On our way'', showFeedbackModal = True\<rparr>"
  let ?w = "\<lparr>localStorage = \<lparr>items = Map.empty, access_denied = False, quota_exceeded = False\<rparr>,
       reports_table = [], wildlife_images = [], downloads = [], onComplete_calls = 0\<rparr>"
  let ?res = "updateReportStatus ''r1'' ''ranger_assigned'' (Some ''On our way'') None (?d, ?w)"
  have e: "?res = (fst ?res, snd ?res)"
    by simp
  have v: "reports (fst ?res) =
     [\<lparr>user_id = Some ''u1'', animal_type = ''Lion'', image_url = ''https://img/1.jpg'',
       latitude = - 1.2921, longitude = 36.8219, status = ''ranger_assigned'',
       feedback = Some ''On our way'',
       Report_id = ''r1'', created_at = ''2025-08-08'', updated_at = ''2025-08-08''\<rparr>,
      \<lparr>user_id = None, animal_type = ''Zebra'', image_url = ''https://img/2.jpg'',
       latitude = 0, longitude = 1, status = ''pending'', feedback = Some ''seen'',
       Report_id = ''r2'', created_at = ''2025-08-09'', updated_at = ''2025-08-09''\<rparr>]"
    by (simp add: updateReportStatus_def js_or_def truthy_def)
  from C10_update_frame [OF e] v show ?thesis
    by simp
qed

section \<open>Report generation (src/unnamed/part_002, component \<open>ReportGeneration\<close>)\<close>

text \<open>
  src/unnamed/part_003 holds an older copy of the component; it differs in the offline
  branch only, where the record handed to \<open>saveOfflineReport\<close> has no \<open>image_url\<close>.
\<close>

record Location =
  Location_latitude :: real
  Location_longitude :: real

text \<open>
  The props and the \<open>useState\<close> cells of the component. The prop \<open>imageDataUrl\<close> is
  \<open>props_imageDataUrl\<close> and the cell \<open>animalType\<close> is \<open>animalType_state\<close> here; the callbacks
  \<open>onBack\<close> and \<open>onComplete\<close> are not part of the record.
\<close>

record ReportGenerationProps =
  imageFile :: File
  props_imageDataUrl :: string
  isAnonymous :: bool

record ReportGeneration =
  analyzing :: bool
  submitting :: bool
  animalType_state :: string
  location :: "Location option"
  error :: string
  report :: "Report option"

text \<open>
  What \<open>submitReport\<close> reads from outside the component: \<open>navigator.onLine\<close>,
  \<open>crypto.randomUUID()\<close>, \<open>new Date().toISOString()\<close>, \<open>Date.now()\<close>, and the backend's
  answers. \<open>upload_error\<close> and \<open>insert_error\<close> are the \<open>error\<close> of the two responses, \<open>None\<close>
  for \<open>null\<close>; an error is represented by its \<open>message\<close>, which may be undefined.
  \<open>getPublicUrl\<close> is the backend's map from a file name to its public URL.
\<close>

record environment =
  navigator_onLine :: bool
  crypto_randomUUID :: string
  Date_toISOString :: string
  Date_now :: nat
  upload_error :: "string option option"
  getPublicUrl :: "string \<Rightarrow> string"
  insert_error :: "string option option"

text \<open>\<open>x || 0\<close> on numbers: \<open>0\<close> is the only falsy number of the model.\<close>

definition or_zero :: "real \<Rightarrow> real" where
  "or_zero x = (if x = 0 then 0 else x)"

definition createReport ::
  "ReportGenerationProps \<Rightarrow> User option \<Rightarrow> ReportGeneration \<Rightarrow> environment \<Rightarrow> Report" where
  "createReport props user st env =
     (let now = Date_toISOString env
      in \<lparr>user_id = (if isAnonymous props then None else map_option User_id user),
          animal_type = animalType_state st,
          image_url = '''',
          latitude = (case location st of None \<Rightarrow> 0 | Some l \<Rightarrow> or_zero (Location_latitude l)),
          longitude = (case location st of None \<Rightarrow> 0 | Some l \<Rightarrow> or_zero (Location_longitude l)),
          status = ''pending'',
          feedback = None,
          Report_id = crypto_randomUUID env,
          created_at = now,
          updated_at = now\<rparr>)"

text \<open>\<open>uploadImage\<close> throws the response's error, or stores the file and returns its URL.\<close>

definition uploadImage ::
  "ReportGenerationProps \<Rightarrow> environment \<Rightarrow> string \<Rightarrow> world
     \<Rightarrow> string option + string \<times> world" where
  "uploadImage props env reportId w =
     (let fileName = reportId @ ''-'' @ string_of_nat (Date_now env) @ ''.jpg''
      in case upload_error env of
           Some e \<Rightarrow> Inl e
         | None \<Rightarrow>
             Inr (getPublicUrl env fileName,
                  w\<lparr>wildlife_images := wildlife_images w @ [(fileName, imageFile props)]\<rparr>))"

text \<open>
  \<open>generateReportPDF\<close> (src/project/src/utils/reportGenerator.ts) hands one PDF to the
  browser.
\<close>

definition generateReportPDF :: "Report \<Rightarrow> string \<Rightarrow> world \<Rightarrow> world" where
  "generateReportPDF r image_data_url w =
     w\<lparr>downloads := downloads w @
          [\<lparr>pdf_report = r,
            pdf_image = (if image_data_url \<noteq> '''' then Some image_data_url else None),
            pdf_filename = ''wildlife-report-'' @ Report_id r @ ''.pdf''\<rparr>]\<rparr>"

text \<open>\<open>err.message || 'Failed to submit report'\<close>.\<close>

definition error_message :: "string option \<Rightarrow> string" where
  "error_message e =
     (case e of None \<Rightarrow> ''Failed to submit report''
      | Some m \<Rightarrow> if m \<noteq> '''' then m else ''Failed to submit report'')"

text \<open>
  \<open>submitReport\<close>. \<open>attempt\<close> is the part of the \<open>try\<close> block that can throw: \<open>Inl\<close> carries
  the thrown error to the \<open>catch\<close> block together with what had been done by then, \<open>Inr\<close>
  carries the report on to \<open>setReport\<close>, \<open>generateReportPDF\<close> and \<open>onComplete\<close>. Both ways end
  in \<open>finally\<close>, which resets \<open>submitting\<close>.
\<close>

definition submitReport ::
  "ReportGenerationProps \<Rightarrow> User option \<Rightarrow> environment
     \<Rightarrow> ReportGeneration \<times> world \<Rightarrow> ReportGeneration \<times> world" where
  "submitReport props user env sw =
     (case sw of (st, w) \<Rightarrow>
        (case location st of
           None \<Rightarrow> (st\<lparr>error := ''Location is required''\<rparr>, w)
         | Some loc \<Rightarrow>
             (let st1 = st\<lparr>submitting := True, error := ''''\<rparr>;
                  newReport = createReport props user st env;
                  attempt =
                    (if navigator_onLine env then
                       (case uploadImage props env (Report_id newReport) w of
                          Inl e \<Rightarrow> Inl (e, w)
                        | Inr (imageUrl, w1) \<Rightarrow>
                            (let newReport1 = newReport\<lparr>image_url := imageUrl\<rparr>
                             in case insert_error env of
                                  Some e \<Rightarrow> Inl (e, w1)
                                | None \<Rightarrow>
                                    Inr (newReport1,
                                         w1\<lparr>reports_table := reports_table w1 @ [newReport1]\<rparr>)))
                     else
                       Inr (newReport,
                            w\<lparr>localStorage :=
                                saveOfflineReport
                                  \<lparr>user_id = user_id newReport,
                                   animal_type = animal_type newReport,
                                   image_url = '''',
                                   latitude = latitude newReport,
                                   longitude = longitude newReport,
                                   status = status newReport,
                                   feedback = None,
                                   tempId = Report_id newReport,
                                   imageDataUrl = props_imageDataUrl props,
                                   timestamp = created_at newReport\<rparr>
                                  (localStorage w)\<rparr>))
              in case attempt of
                   Inl (e, w') \<Rightarrow> (st1\<lparr>error := error_message e, submitting := False\<rparr>, w')
                 | Inr (r, w') \<Rightarrow>
                     (st1\<lparr>report := Some r, submitting := False\<rparr>,
                      (generateReportPDF r (props_imageDataUrl props) w')
                        \<lparr>onComplete_calls := Suc (onComplete_calls w')\<rparr>))))"

lemma or_zero_id: "or_zero x = x"
  by (simp add: or_zero_def)

lemma createReport_fields:
  "location st = Some loc \<Longrightarrow>
   createReport props user st env =
     \<lparr>user_id = (if isAnonymous props then None else map_option User_id user),
      animal_type = animalType_state st,
      image_url = '''',
      latitude = Location_latitude loc,
      longitude = Location_longitude loc,
      status = ''pending'',
      feedback = None,
      Report_id = crypto_randomUUID env,
      created_at = Date_toISOString env,
      updated_at = Date_toISOString env\<rparr>"
  by (simp add: createReport_def or_zero_id Let_def)




lemma submitReport_offline:
  assumes "location st = Some loc" "\<not> navigator_onLine env"
  shows "submitReport props user env (st, w) =
    (let r = createReport props user st env
     in (st\<lparr>submitting := False, error := '''', report := Some r\<rparr>,
         w\<lparr>localStorage :=
             saveOfflineReport
               \<lparr>user_id = (if isAnonymous props then None else map_option User_id user),
                animal_type = animalType_state st,
                image_url = '''',
                latitude = Location_latitude loc,
                longitude = Location_longitude loc,
                status = ''pending'',
                feedback = None,
                tempId = crypto_randomUUID env,
                imageDataUrl = props_imageDataUrl props,
                timestamp = Date_toISOString env\<rparr>
               (localStorage w),
           downloads := downloads w @
             [\<lparr>pdf_report = r,
               pdf_image = (if props_imageDataUrl props \<noteq> '''' then Some (props_imageDataUrl props)
                            else None),
               pdf_filename = ''wildlife-report-'' @ crypto_randomUUID env @ ''.pdf''\<rparr>],
           onComplete_calls := Suc (onComplete_calls w)\<rparr>))"
  using assms
  by (simp add: submitReport_def generateReportPDF_def Let_def createReport_fields)




text \<open>
  C7, as the code has it. With a location set and the browser offline, \<open>submitReport\<close> uploads
  nothing and inserts nothing, and hands \<open>saveOfflineReport\<close> the record with the image as a
  data URL and an empty \<open>image_url\<close>. When the stored queue is a list and the storage accepts
  the write, the queue read afterwards is that list with the record appended; when the
  storage throws, the queue stays as it was.
\<close>

theorem C7_offline_submit_queues_when_stored:
  assumes "location st = Some loc" "\<not> navigator_onLine env"
    and "submitReport props user env (st, w) = (st', w')"
  shows "\<exists>q. q = \<lparr>user_id = (if isAnonymous props then None else map_option User_id user),
                  animal_type = animalType_state st,
                  image_url = '''',
                  latitude = Location_latitude loc,
                  longitude = Location_longitude loc,
                  status = ''pending'',
                  feedback = None,
                  tempId = crypto_randomUUID env,
                  imageDataUrl = props_imageDataUrl props,
                  timestamp = Date_toISOString env\<rparr>
     \<and> localStorage w' = saveOfflineReport q (localStorage w)
     \<and> reports_table w' = reports_table w
     \<and> wildlife_images w' = wildlife_images w
     \<and> (\<forall>queue. getOfflineReports (localStorage w) = JArr queue
            \<and> \<not> access_denied (localStorage w) \<and> \<not> quota_exceeded (localStorage w)
          \<longrightarrow> getOfflineReports (localStorage w') = JArr (queue @ [JObj q]))
     \<and> (access_denied (localStorage w) \<or> quota_exceeded (localStorage w)
          \<longrightarrow> localStorage w' = localStorage w)"
proof -
  let ?q = "\<lparr>user_id = (if isAnonymous props then None else map_option User_id user),
             animal_type = animalType_state st,
             image_url = '''',
             latitude = Location_latitude loc,
             longitude = Location_longitude loc,
             status = ''pending'',
             feedback = None,
             tempId = crypto_randomUUID env,
             imageDataUrl = props_imageDataUrl props,
             timestamp = Date_toISOString env\<rparr>"
  have w': "localStorage w' = saveOfflineReport ?q (localStorage w)"
    "reports_table w' = reports_table w" "wildlife_images w' = wildlife_images w"
    using assms(3) submitReport_offline [OF assms(1,2), of props user w]
    by (auto simp: Let_def)
  have stored: "getOfflineReports (localStorage w') = JArr (queue @ [JObj ?q])"
    if "getOfflineReports (localStorage w) = JArr queue"
      "\<not> access_denied (localStorage w)" "\<not> quota_exceeded (localStorage w)" for queue
    unfolding w'(1) saveOfflineReport_array [OF that] using that(2)
    by (simp add: getOfflineReports_items)
  have blocked: "localStorage w' = localStorage w"
    if "access_denied (localStorage w) \<or> quota_exceeded (localStorage w)"
    unfolding w'(1) using that by (rule saveOfflineReport_blocked)
  show ?thesis
    using w' stored blocked by blast
qed

theorem C7_offline_submit_queues_when_stored_witness:
  "submitReport
     \<lparr>imageFile = \<lparr>File_name = ''zebra.jpg'', File_bytes = [255, 216]\<rparr>,
       props_imageDataUrl = ''data:image/jpeg;base64,AA'', isAnonymous = False\<rparr>
     (Some \<lparr>User_id = ''u1''\<rparr>)
     \<lparr>navigator_onLine = False, crypto_randomUUID = ''id-1'',
       Date_toISOString = ''2025-08-08T10:00:00.000Z'', Date_now = 1754647200000,
       upload_error = None, getPublicUrl = append ''https://sb.example/'',
       insert_error = None\<rparr>
     (\<lparr>analyzing = False, submitting = False, animalType_state = ''Zebra'',
        location = Some \<lparr>Location_latitude = - 1.2921, Location_longitude = 36.8219\<rparr>,
        error = '''',
        report = None\<rparr>,
      \<lparr>localStorage =
          \<lparr>items = Map.empty,
            access_denied = False, quota_exceeded = False\<rparr>,
        reports_table = [],
        wildlife_images = [],
        downloads = [],
        onComplete_calls = 0\<rparr>)
   = (\<lparr>analyzing = False, submitting = False, animalType_state = ''Zebra'',
           location = Some \<lparr>Location_latitude = - 1.2921, Location_longitude = 36.8219\<rparr>,
           error = '''',
           report = Some
                      \<lparr>user_id = Some ''u1'', animal_type = ''Zebra'',
                        image_url = '''',
                        latitude = - 1.2921, longitude = 36.8219, status = ''pending'', feedback = None,
                        Report_id = ''id-1'', created_at = ''2025-08-08T10:00:00.000Z'',
                        updated_at = ''2025-08-08T10:00:00.000Z''\<rparr>\<rparr>,
         \<lparr>localStorage =
             \<lparr>items =
                        [OFFLINE_REPORTS_KEY \<mapsto> JSONText (JArr [JObj
                          \<lparr>user_id = Some ''u1'', animal_type = ''Zebra'', image_url = '''',
                            latitude = - 1.2921, longitude = 36.8219, status = ''pending'', feedback = None,
                            tempId = ''id-1'', imageDataUrl = ''data:image/jpeg;base64,AA'',
                            timestamp = ''2025-08-08T10:00:00.000Z''\<rparr>])],
               access_denied = False, quota_exceeded = False\<rparr>,
           reports_table = [],
           wildlife_images = [],
           downloads =
                       [\<lparr>pdf_report =
                            \<lparr>user_id = Some ''u1'', animal_type = ''Zebra'',
                              image_url = '''',
                              latitude = - 1.2921, longitude = 36.8219, status = ''pending'', feedback = None,
                              Report_id = ''id-1'', created_at = ''2025-08-08T10:00:00.000Z'',
                              updated_at = ''2025-08-08T10:00:00.000Z''\<rparr>,
                          pdf_image = Some ''data:image/jpeg;base64,AA'',
                          pdf_filename = ''wildlife-report-id-1.pdf''\<rparr>],
           onComplete_calls = 1\<rparr>)"
proof -
  let ?env = "\<lparr>navigator_onLine = False, crypto_randomUUID = ''id-1'',
                Date_toISOString = ''2025-08-08T10:00:00.000Z'', Date_now = 1754647200000,
                upload_error = None, getPublicUrl = append ''https://sb.example/'',
                insert_error = None\<rparr>"
  let ?st = "\<lparr>analyzing = False, submitting = False, animalType_state = ''Zebra'',
               location = Some \<lparr>Location_latitude = - 1.2921, Location_longitude = 36.8219\<rparr>,
               error = '''',
               report = None\<rparr>"
  let ?w = "\<lparr>localStorage =
                \<lparr>items = Map.empty,
                  access_denied = False, quota_exceeded = False\<rparr>,
              reports_table = [],
              wildlife_images = [],
              downloads = [],
              onComplete_calls = 0\<rparr>"
  let ?call = "submitReport
     \<lparr>imageFile = \<lparr>File_name = ''zebra.jpg'', File_bytes = [255, 216]\<rparr>,
       props_imageDataUrl = ''data:image/jpeg;base64,AA'', isAnonymous = False\<rparr>
     (Some \<lparr>User_id = ''u1''\<rparr>) ?env (?st, ?w)"
  have l: "location ?st = Some \<lparr>Location_latitude = - 1.2921, Location_longitude = 36.8219\<rparr>"
    by simp
  have n: "\<not> navigator_onLine ?env"
    by simp
  have e: "?call = (fst ?call, snd ?call)"
    by simp
  from C7_offline_submit_queues_when_stored [OF l n e] show ?thesis
    by (simp add: submitReport_def uploadImage_def generateReportPDF_def createReport_def
        or_zero_def error_message_def saveOfflineReport_def getOfflineReports_def getItem_def
        setItem_def JSON_parse_def JSON_stringify_def string_of_nat.simps Let_def)
qed

text \<open>
  C7, as the claim states it, fails: with a location set, the browser offline and the
  storage's quota used up, \<open>submitReport\<close> ends with the report in its state and a PDF
  produced, while the storage is as it was and the queue read from it is empty.
\<close>

theorem C7_offline_full_storage_queues_nothing:
  "submitReport
     \<lparr>imageFile = \<lparr>File_name = ''zebra.jpg'', File_bytes = [255, 216]\<rparr>,
       props_imageDataUrl = ''data:image/jpeg;base64,AA'', isAnonymous = False\<rparr>
     (Some \<lparr>User_id = ''u1''\<rparr>)
     \<lparr>navigator_onLine = False, crypto_randomUUID = ''id-1'',
       Date_toISOString = ''2025-08-08T10:00:00.000Z'', Date_now = 1754647200000,
       upload_error = None, getPublicUrl = append ''https://sb.example/'',
       insert_error = None\<rparr>
     (\<lparr>analyzing = False, submitting = False, animalType_state = ''Zebra'',
        location = Some \<lparr>Location_latitude = - 1.2921, Location_longitude = 36.8219\<rparr>,
        error = '''',
        report = None\<rparr>,
      \<lparr>localStorage =
          \<lparr>items = Map.empty,
            access_denied = False, quota_exceeded = True\<rparr>,
        reports_table = [],
        wildlife_images = [],
        downloads = [],
        onComplete_calls = 0\<rparr>)
   = (\<lparr>analyzing = False, submitting = False, animalType_state = ''Zebra'',
           location = Some \<lparr>Location_latitude = - 1.2921, Location_longitude = 36.8219\<rparr>,
           error = '''',
           report = Some
                      \<lparr>user_id = Some ''u1'', animal_type = ''Zebra'',
                        image_url = '''',
                        latitude = - 1.2921, longitude = 36.8219, status = ''pending'', feedback = None,
                        Report_id = ''id-1'', created_at = ''2025-08-08T10:00:00.000Z'',
                        updated_at = ''2025-08-08T10:00:00.000Z''\<rparr>\<rparr>,
         \<lparr>localStorage =
             \<lparr>items = Map.empty,
               access_denied = False, quota_exceeded = True\<rparr>,
           reports_table = [],
           wildlife_images = [],
           downloads =
                       [\<lparr>pdf_report =
                            \<lparr>user_id = Some ''u1'', animal_type = ''Zebra'',
                              image_url = '''',
                              latitude = - 1.2921, longitude = 36.8219, status = ''pending'', feedback = None,
                              Report_id = ''id-1'', created_at = ''2025-08-08T10:00:00.000Z'',
                              updated_at = ''2025-08-08T10:00:00.000Z''\<rparr>,
                          pdf_image = Some ''data:image/jpeg;base64,AA'',
                          pdf_filename = ''wildlife-report-id-1.pdf''\<rparr>],
           onComplete_calls = 1\<rparr>)
   \<and> getOfflineReports
       \<lparr>items = Map.empty,
         access_denied = False, quota_exceeded = True\<rparr> = JArr []"
  by (simp add: submitReport_def uploadImage_def generateReportPDF_def createReport_def
        or_zero_def error_message_def saveOfflineReport_def getOfflineReports_def getItem_def
        setItem_def JSON_parse_def JSON_stringify_def string_of_nat.simps Let_def)

end
